theory Spec2Isabelle
  imports Complex_Main "HOL-Library.Multiset"
begin

section \<open>Python strings\<close>

text \<open>
  A Python \<open>str\<close> is a sequence of code points. It is modelled as a \<open>string\<close> in which
  every \<open>char\<close> stands for one code point of the range 0..255 (Latin-1), so that
  \<open>length\<close> counts what \<open>len\<close> counts. Text with code points above 255 is not
  covered by the model.
\<close>

text \<open>\<open>str.isspace\<close> on one code point below 256.\<close>

definition is_space :: "char \<Rightarrow> bool" where
  "is_space c =
     (let n = (of_char c :: int)
      in (9 \<le> n \<and> n \<le> 13) \<or> (28 \<le> n \<and> n \<le> 32) \<or> n = 133 \<or> n = 160)"

text \<open>\<open>str.lower\<close> on one code point below 256: A..Z and the upper-case letters of
  Latin-1 (192..222 but the multiplication sign 215) move up by 32.\<close>

definition lower_char :: "char \<Rightarrow> char" where
  "lower_char c =
     (let n = (of_char c :: int)
      in if (65 \<le> n \<and> n \<le> 90) \<or> (192 \<le> n \<and> n \<le> 222 \<and> n \<noteq> 215)
         then char_of (n + 32) else c)"

definition lower :: "string \<Rightarrow> string" where
  "lower s = map lower_char s"

text \<open>\<open>str.strip()\<close>: white space removed at both ends.\<close>

definition strip :: "string \<Rightarrow> string" where
  "strip s = rev (dropWhile is_space (rev (dropWhile is_space s)))"

text \<open>\<open>sub in s\<close> on strings: \<open>sub\<close> occurs in \<open>s\<close> as a contiguous substring.\<close>

fun starts_with :: "string \<Rightarrow> string \<Rightarrow> bool" where
  "starts_with [] s = True"
| "starts_with (a # as) [] = False"
| "starts_with (a # as) (b # bs) = (a = b \<and> starts_with as bs)"

fun str_in :: "string \<Rightarrow> string \<Rightarrow> bool" where
  "str_in sub [] = (sub = [])"
| "str_in sub (c # cs) = (starts_with sub (c # cs) \<or> str_in sub cs)"

text \<open>\<open>str(n)\<close> for a natural number: its decimal digits.\<close>

fun str_nat :: "nat \<Rightarrow> string" where
  "str_nat n =
     (if n < 10 then [char_of (48 + n)]
      else str_nat (n div 10) @ [char_of (48 + n mod 10)])"

declare str_nat.simps [simp del]

subsection \<open>\<open>int(s)\<close> on a string\<close>

text \<open>
  \<open>int(s)\<close> in base 10: white space is stripped at both ends, one sign may lead, then
  come decimal digits, where single underscores may separate digits. Anything else raises
  \<open>ValueError\<close> (here \<open>None\<close>). The interpreter's limit on the number of digits of
  a literal is not modelled.
\<close>

definition is_digit :: "char \<Rightarrow> bool" where
  "is_digit c = (48 \<le> (of_char c :: int) \<and> (of_char c :: int) \<le> 57)"

definition digit_val :: "char \<Rightarrow> int" where
  "digit_val c = of_char c - 48"

fun digits_value :: "int \<Rightarrow> string \<Rightarrow> int option" where
  "digits_value acc [] = Some acc"
| "digits_value acc [c] = (if is_digit c then Some (acc * 10 + digit_val c) else None)"
| "digits_value acc (c # d # ds) =
     (if is_digit c then digits_value (acc * 10 + digit_val c) (d # ds)
      else if c = CHR ''_'' \<and> is_digit d then digits_value (acc * 10 + digit_val d) ds
      else None)"

definition py_int :: "string \<Rightarrow> int option" where
  "py_int s =
     (case strip s of
        [] \<Rightarrow> None
      | c # cs \<Rightarrow>
          (let body = (if c = CHR ''+'' \<or> c = CHR ''-'' then cs else c # cs);
               sign = (if c = CHR ''-'' then - 1 else 1)
           in case body of
                [] \<Rightarrow> None
              | d # ds \<Rightarrow>
                  (if is_digit d
                   then map_option (\<lambda>v. sign * v) (digits_value (digit_val d) ds)
                   else None)))"

section \<open>Categories and keywords\<close>

definition CATEGORIES :: "string list" where
  "CATEGORIES =
     [''Water Issues'', ''Road Issues'', ''Garbage Issues'', ''Electricity'',
      ''Drainage Issues'', ''Other'']"

text \<open>\<open>CATEGORY_KEYWORDS\<close> is a dict literal; a Python dict iterates in insertion
  order, so it is an association list in the order of the literal.\<close>

definition CATEGORY_KEYWORDS :: "(string \<times> string list) list" where
  "CATEGORY_KEYWORDS =
     [(''Water Issues'',
        [''water'', ''drinking'', ''supply'', ''leak'', ''pipe'', ''tap'', ''smell'',
         ''taste'', ''pressure'']),
      (''Road Issues'',
        [''road'', ''pothole'', ''asphalt'', ''street'', ''highway'', ''repair'',
         ''damage'', ''construction'']),
      (''Garbage Issues'',
        [''garbage'', ''trash'', ''waste'', ''collection'', ''dump'', ''bin'', ''clean'',
         ''disposal'']),
      (''Electricity'',
        [''electricity'', ''power'', ''outage'', ''blackout'', ''wire'', ''transformer'',
         ''voltage'', ''flickering'']),
      (''Drainage Issues'',
        [''drainage'', ''sewer'', ''flood'', ''waterlogging'', ''blockage'', ''clog'',
         ''overflow'']),
      (''Other'',
        [''noise'', ''loudspeaker'', ''park'', ''tree'', ''animal'', ''stray'', ''public'',
         ''nuisance''])]"

text \<open>The loop of \<open>manual_category_detection\<close> over the items of a keyword table:
  the first category one of whose keywords occurs in the text.\<close>

fun first_keyword_match :: "(string \<times> string list) list \<Rightarrow> string \<Rightarrow> string option" where
  "first_keyword_match [] complaint_text = None"
| "first_keyword_match ((category, keywords) # rest) complaint_text =
     (if list_ex (\<lambda>keyword. str_in (lower keyword) complaint_text) keywords
      then Some category
      else first_keyword_match rest complaint_text)"

definition manual_category_detection :: "string \<Rightarrow> string option" where
  "manual_category_detection complaint_text =
     first_keyword_match CATEGORY_KEYWORDS (lower complaint_text)"

definition validate_prediction :: "string \<Rightarrow> string \<Rightarrow> string" where
  "validate_prediction predicted_category complaint_text =
     (if predicted_category \<notin> set CATEGORIES then ''Other'' else predicted_category)"

section \<open>The statistical classifier\<close>

text \<open>
  The three artefacts loaded at start-up; each is \<open>None\<close> when its file is missing.
  Only their inference contract is modelled: the vectorizer maps a text to features
  (type \<open>'f\<close>), the model maps features to a class number, the label encoder maps a class
  number to a label. A loaded artefact is taken to be truthy and its call to return.
\<close>

record 'f ml_components =
  model :: "('f \<Rightarrow> int) option"
  tfidf_vectorizer :: "(string \<Rightarrow> 'f) option"
  label_encoder :: "(int \<Rightarrow> string) option"

section \<open>The document store\<close>

text \<open>
  Times are integers, in microseconds since the epoch (the resolution of
  \<open>datetime\<close>). The store keeps a date in milliseconds: \<open>bson_datetime\<close> is what a
  \<open>datetime\<close> reads back as after it has been stored.
\<close>

definition bson_datetime :: "int \<Rightarrow> int" where
  "bson_datetime t = t - t mod 1000"

text \<open>
  A complaint document, with the fields of \<open>complaint_entry\<close> that the operations
  below read or write. The photo fields, \<open>tags\<close> and \<open>comments\<close> are left out: photo
  storage, the JSON parser and the comment operation are not modelled, and none of them
  enters another field. \<open>voters\<close> is absent from a new document; reading it gives the
  empty list then, so an absent field and the empty list are the same here.
  \<open>priority_score\<close> is a number that votes move in steps of one half: a rational.
\<close>

record complaint_doc =
  doc_id :: string
  complaint :: string
  category :: string
  location :: string
  timestamp :: int
  prediction_source :: string
  model_version :: string
  status :: string
  priority_score :: rat
  severity :: int
  anonymous :: bool
  votes :: int
  submitted_by :: string
  voters :: "string list"

record activity_doc =
  activity_type :: string
  message :: string
  activity_timestamp :: int

text \<open>The two collections. \<open>_id\<close> is unique in a collection, so the complaints are a
  map from \<open>_id\<close>; the activity log is the list of its entries in insertion order.\<close>

record db =
  complaints_collection :: "string \<rightharpoonup> complaint_doc"
  activity_collection :: "activity_doc list"

definition MODEL_VERSION :: string where
  "MODEL_VERSION = ''1.2.0''"

text \<open>\<open>log_activity\<close>: one entry appended, stamped with the clock.\<close>

definition log_activity :: "string \<Rightarrow> string \<Rightarrow> int \<Rightarrow> db \<Rightarrow> db" where
  "log_activity activity_type' message' now d =
     d\<lparr>activity_collection :=
          activity_collection d @
          [\<lparr>activity_type = activity_type', message = message',
            activity_timestamp = bson_datetime now\<rparr>]\<rparr>"

section \<open>Requests and responses\<close>

text \<open>
  A request carries either a JSON body (\<open>None\<close> when the body is \<open>null\<close>, else an
  object) or form fields. The fields read by the handlers are modelled with string
  values; a field is absent when the map gives \<open>None\<close>.

  A handler answers with a payload (HTTP 200) or with a status code and a message.
\<close>

datatype request =
    JsonRequest "(string \<rightharpoonup> string) option"
  | FormRequest "string \<rightharpoonup> string"

datatype 'a response = Success 'a | Failure nat string

text \<open>\<open>d.get(key, default)\<close>.\<close>

definition get_or :: "(string \<rightharpoonup> string) \<Rightarrow> string \<Rightarrow> string \<Rightarrow> string" where
  "get_or d key dflt = (case d key of None \<Rightarrow> dflt | Some v \<Rightarrow> v)"

text \<open>Truthiness of an optional string: \<open>None\<close> and the empty string are falsy.\<close>

definition truthy :: "string option \<Rightarrow> bool" where
  "truthy v = (case v of None \<Rightarrow> False | Some s \<Rightarrow> s \<noteq> [])"

section \<open>Submitting a complaint\<close>

text \<open>The fields \<open>submit_complaint\<close> reads from the request. A JSON request has no form
  fields, so \<open>request.form\<close> is empty for it.\<close>

definition request_complaint_text :: "request \<Rightarrow> string" where
  "request_complaint_text req =
     (case req of
        JsonRequest None \<Rightarrow> []
      | JsonRequest (Some data) \<Rightarrow> strip (get_or data ''complaint'' [])
      | FormRequest form \<Rightarrow> strip (get_or form ''complaint'' []))"

definition request_location :: "request \<Rightarrow> string" where
  "request_location req =
     (case req of
        JsonRequest None \<Rightarrow> []
      | JsonRequest (Some data) \<Rightarrow> get_or data ''location'' []
      | FormRequest form \<Rightarrow> get_or form ''location'' ''Not specified'')"

definition request_submitted_by :: "request \<Rightarrow> string" where
  "request_submitted_by req =
     (case req of
        JsonRequest None \<Rightarrow> ''Anonymous''
      | JsonRequest (Some data) \<Rightarrow> get_or data ''submitted_by'' ''Anonymous''
      | FormRequest form \<Rightarrow> get_or form ''submitted_by'' ''Anonymous'')"

definition request_form :: "request \<Rightarrow> (string \<rightharpoonup> string)" where
  "request_form req = (case req of JsonRequest data \<Rightarrow> Map.empty | FormRequest form \<Rightarrow> form)"

text \<open>
  The classification block of \<open>submit_complaint\<close>: the keyword match
  \<open>manual_category\<close> and the final \<open>predicted_category\<close>, after the last check against
  \<open>CATEGORIES\<close>.
\<close>

definition resolve_category :: "'f ml_components \<Rightarrow> string \<Rightarrow> string option \<times> string" where
  "resolve_category ml complaint_text =
     (let manual_category = manual_category_detection (lower complaint_text);
          predicted_category =
            (if truthy manual_category
             then (case manual_category of Some c \<Rightarrow> c | None \<Rightarrow> [])
             else
               (case (model ml, tfidf_vectorizer ml, label_encoder ml) of
                  (Some m, Some v, Some e) \<Rightarrow>
                    validate_prediction (e (m (v (lower complaint_text)))) (lower complaint_text)
                | _ \<Rightarrow>
                    (let again = manual_category_detection (lower complaint_text)
                     in if truthy again
                        then (case again of Some c \<Rightarrow> c | None \<Rightarrow> [])
                        else ''Other'')))
      in (manual_category,
          if predicted_category \<notin> set CATEGORIES then ''Other'' else predicted_category))"

text \<open>\<open>severity\<close>: the form field, 5 when it is absent; \<open>int\<close> of it, 5 when that
  raises.\<close>

definition parse_severity :: "(string \<rightharpoonup> string) \<Rightarrow> int" where
  "parse_severity form =
     (case form ''severity'' of
        None \<Rightarrow> 5
      | Some s \<Rightarrow> (case py_int s of None \<Rightarrow> 5 | Some n \<Rightarrow> n))"

definition initial_priority_score :: "int \<Rightarrow> string \<Rightarrow> int" where
  "initial_priority_score severity' complaint_text =
     (if str_in ''urgent'' (lower complaint_text) \<or> str_in ''emergency'' (lower complaint_text)
      then min 10 (severity' + 2)
      else if str_in ''soon'' (lower complaint_text) \<or> str_in ''important'' (lower complaint_text)
      then min 10 (severity' + 1)
      else severity')"

definition complaint_entry :: "'f ml_components \<Rightarrow> request \<Rightarrow> string \<Rightarrow> int \<Rightarrow> complaint_doc" where
  "complaint_entry ml req complaint_id now =
     (let complaint_text = request_complaint_text req;
          (manual_category, predicted_category) = resolve_category ml complaint_text;
          severity' = parse_severity (request_form req)
      in \<lparr>doc_id = complaint_id,
          complaint = complaint_text,
          category = predicted_category,
          location = request_location req,
          timestamp = bson_datetime now,
          prediction_source = (if truthy manual_category then ''manual'' else ''model''),
          model_version = MODEL_VERSION,
          status = ''new'',
          priority_score = of_int (initial_priority_score severity' complaint_text),
          severity = severity',
          anonymous = (lower (get_or (request_form req) ''anonymous'' ''false'') = ''true''),
          votes = 0,
          submitted_by = request_submitted_by req,
          voters = []\<rparr>)"

text \<open>
  \<open>submit_complaint\<close>. \<open>complaint_id\<close> is the value \<open>uuid4\<close> returns, \<open>now\<close> and
  \<open>now_log\<close> are the clock readings for the document and for the activity entry.
  \<open>insert_one\<close> raises on an \<open>_id\<close> that is already in the collection; the handler
  answers 500 to any exception. The payload of a success is the id and the category.
\<close>

definition submit_complaint ::
  "'f ml_components \<Rightarrow> request \<Rightarrow> string \<Rightarrow> int \<Rightarrow> int \<Rightarrow> db \<Rightarrow> (string \<times> string) response \<times> db" where
  "submit_complaint ml req complaint_id now now_log d =
     (if length (request_complaint_text req) < 10
      then (Failure 400 ''Complaint must be at least 10 characters'', d)
      else
        (let entry = complaint_entry ml req complaint_id now
         in case complaints_collection d complaint_id of
              Some other \<Rightarrow> (Failure 500 ''Internal server error'', d)
            | None \<Rightarrow>
                (Success (complaint_id, category entry),
                 log_activity ''new_complaint''
                   (''New complaint submitted in '' @ category entry @ '' category'') now_log
                   (d\<lparr>complaints_collection := (complaints_collection d)(complaint_id \<mapsto> entry)\<rparr>))))"

section \<open>Updating the status\<close>

definition update_status :: "(string \<rightharpoonup> string) option \<Rightarrow> int \<Rightarrow> db \<Rightarrow> unit response \<times> db" where
  "update_status data now d =
     (let complaint_id = (case data of None \<Rightarrow> None | Some j \<Rightarrow> j ''complaintId'');
          new_status = (case data of None \<Rightarrow> None | Some j \<Rightarrow> j ''status'')
      in if \<not> truthy complaint_id \<or> \<not> truthy new_status
         then (Failure 400 ''Missing required fields'', d)
         else
           (case (complaint_id, new_status) of
              (Some cid, Some st) \<Rightarrow>
                (if st \<notin> set [''new'', ''in_progress'', ''resolved'']
                 then (Failure 400 ''Invalid status value'', d)
                 else
                   (case complaints_collection d cid of
                      None \<Rightarrow> (Failure 404 ''Complaint not found'', d)
                    | Some c \<Rightarrow>
                        (let status_text =
                               (if st = ''new'' then ''New''
                                else if st = ''in_progress'' then ''In Progress''
                                else ''Resolved'')
                         in (Success (),
                             log_activity ''status_update''
                               (''Complaint #'' @ take 8 cid @ '' marked as '' @ status_text) now
                               (d\<lparr>complaints_collection :=
                                    (complaints_collection d)(cid \<mapsto> c\<lparr>status := st\<rparr>)\<rparr>)))))
            | _ \<Rightarrow> (Failure 400 ''Missing required fields'', d)))"

section \<open>Voting\<close>

text \<open>\<open>$addToSet\<close> on a list field.\<close>

definition add_to_set :: "string list \<Rightarrow> string \<Rightarrow> string list" where
  "add_to_set xs x = (if x \<in> set xs then xs else xs @ [x])"

text \<open>
  \<open>vote_complaint\<close>. The payload of a success is the message, \<open>votes\<close> and
  \<open>priority_score\<close> of the document read back. \<open>modified_count\<close> is 0 when the update
  leaves the document as it was.
\<close>

definition vote_complaint ::
  "(string \<rightharpoonup> string) option \<Rightarrow> db \<Rightarrow> (string \<times> int \<times> rat) response \<times> db" where
  "vote_complaint data d =
     (let complaint_id = (case data of None \<Rightarrow> None | Some j \<Rightarrow> j ''complaintId'');
          vote_type = (case data of None \<Rightarrow> ''upvote'' | Some j \<Rightarrow> get_or j ''voteType'' ''upvote'');
          user_email = (case data of None \<Rightarrow> None | Some j \<Rightarrow> j ''userEmail'')
      in case complaint_id of
           None \<Rightarrow> (Failure 400 ''Complaint ID is required'', d)
         | Some cid \<Rightarrow>
             (if cid = [] then (Failure 400 ''Complaint ID is required'', d)
              else
                (case complaints_collection d cid of
                   None \<Rightarrow> (Failure 404 ''Complaint not found'', d)
                 | Some c \<Rightarrow>
                     (if (case user_email of
                            None \<Rightarrow> False
                          | Some e \<Rightarrow> e \<noteq> [] \<and> e \<in> set (voters c))
                      then (Failure 400 ''You have already voted on this complaint'', d)
                      else
                        (let vote_change = (if vote_type = ''upvote'' then 1 else - 1);
                             updated =
                               c\<lparr>votes := votes c + vote_change,
                                 priority_score := priority_score c + of_int vote_change * (1 / 2),
                                 voters :=
                                   (case user_email of
                                      None \<Rightarrow> voters c
                                    | Some e \<Rightarrow> if e \<noteq> [] then add_to_set (voters c) e else voters c)\<rparr>;
                             modified_count = (if updated = c then 0 else (1::nat))
                         in if modified_count = 0
                            then (Failure 404 ''Complaint not found or vote not recorded'', d)
                            else
                              (Success
                                 (''Vote '' @ (if vote_type = ''upvote'' then ''added'' else ''removed''),
                                  votes updated, priority_score updated),
                               d\<lparr>complaints_collection :=
                                    (complaints_collection d)(cid \<mapsto> updated)\<rparr>))))))"

section \<open>Reading the recent activity\<close>

text \<open>
  The label of an entry, from \<open>diff\<close>, the clock reading minus the entry's timestamp in
  microseconds. \<open>total_seconds()\<close> is \<open>diff\<close> over \<open>10^6\<close>; \<open>int(x / 60)\<close> truncates
  towards zero and is only taken of a positive \<open>x\<close>, so it is the integer quotient.
\<close>

definition time_ago_of :: "int \<Rightarrow> string" where
  "time_ago_of diff =
     (if diff < 60 * 1000000 then ''just now''
      else if diff < 3600 * 1000000 then
        (let minutes = nat (diff div (60 * 1000000))
         in str_nat minutes @ '' minute'' @ (if minutes > 1 then ''s'' else []) @ '' ago'')
      else if diff < 86400 * 1000000 then
        (let hours = nat (diff div (3600 * 1000000))
         in str_nat hours @ '' hour'' @ (if hours > 1 then ''s'' else []) @ '' ago'')
      else
        (let days = nat (diff div (86400 * 1000000))
         in str_nat days @ '' day'' @ (if days > 1 then ''s'' else []) @ '' ago''))"

text \<open>An entry as the read returns it: the stored fields and the label.\<close>

record activity_view = activity_doc +
  time_ago :: string

definition annotate :: "int \<Rightarrow> activity_doc \<Rightarrow> activity_view" where
  "annotate now a =
     \<lparr>activity_type = activity_type a, message = message a,
      activity_timestamp = activity_timestamp a,
      time_ago = time_ago_of (now - activity_timestamp a)\<rparr>"

text \<open>
  \<open>find().sort("timestamp", -1).limit(10)\<close>: the entries by descending timestamp, the
  first ten of them. Entries of equal timestamp are taken in insertion order.
\<close>

definition recent_activities :: "activity_doc list \<Rightarrow> activity_doc list" where
  "recent_activities entries = take 10 (sort_key (\<lambda>a. - activity_timestamp a) entries)"

text \<open>
  \<open>get_recent_activity\<close>. The loop reads the clock once for each entry: \<open>clock i\<close> is
  the reading in iteration \<open>i\<close>.
\<close>

definition get_recent_activity :: "(nat \<Rightarrow> int) \<Rightarrow> db \<Rightarrow> activity_view list response \<times> db" where
  "get_recent_activity clock d =
     (let activities = recent_activities (activity_collection d)
      in (Success (map (\<lambda>(i, a). annotate (clock i) a) (enumerate 0 activities)), d))"

section \<open>Auxiliary notions for the statements\<close>

text \<open>The complaint field of a request as it arrives, before \<open>strip\<close>.\<close>

definition request_complaint_field :: "request \<Rightarrow> string" where
  "request_complaint_field req =
     (case req of
        JsonRequest None \<Rightarrow> []
      | JsonRequest (Some data) \<Rightarrow> get_or data ''complaint'' []
      | FormRequest form \<Rightarrow> get_or form ''complaint'' [])"

text \<open>The stored fields of an entry that the read returns: the entry without its label.\<close>

definition stored_fields :: "activity_view \<Rightarrow> activity_doc" where
  "stored_fields v =
     \<lparr>activity_type = activity_type v, message = message v,
      activity_timestamp = activity_timestamp v\<rparr>"

text \<open>Sample values: a process without the artefacts of the classifier, and (below) a
  stored complaint on which \<open>ann@example.org\<close> has voted.\<close>

definition no_ml :: "unit ml_components" where
  "no_ml = \<lparr>model = None, tfidf_vectorizer = None, label_encoder = None\<rparr>"

text \<open>A classifier that is loaded and answers Garbage Issues to every text.\<close>

definition garbage_ml :: "unit ml_components" where
  "garbage_ml =
     \<lparr>model = Some (\<lambda>features. 0), tfidf_vectorizer = Some (\<lambda>s. ()),
      label_encoder = Some (\<lambda>n. ''Garbage Issues'')\<rparr>"

definition sample_doc :: complaint_doc where
  "sample_doc =
     \<lparr>doc_id = ''c0ffee00-1'', complaint = ''Street light is broken'',
      category = ''Road Issues'', location = ''Main St'', timestamp = 0,
      prediction_source = ''manual'', model_version = ''1.2.0'', status = ''new'',
      priority_score = 5, severity = 5, anonymous = False, votes = 3,
      submitted_by = ''Anonymous'', voters = [''ann@example.org'']\<rparr>"

definition sample_db :: db where
  "sample_db =
     \<lparr>complaints_collection = [''c0ffee00-1'' \<mapsto> sample_doc], activity_collection = []\<rparr>"

text \<open>An activity log of twelve entries; read at time \<open>10^12\<close> they are between 30
  seconds and 10 days old.\<close>

definition sample_activity_db :: db where
  "sample_activity_db =
     \<lparr>complaints_collection = Map.empty,
      activity_collection =
        map (\<lambda>t. \<lparr>activity_type = ''status_update'',
                  message = ''Complaint #c0ffee00 marked as Resolved'',
                  activity_timestamp = t\<rparr>)
          [136000000000, 222400000000, 308800000000, 395200000000,
           481600000000, 568000000000, 654400000000, 740795000000,
           992800000000, 999910000000, 999940000000, 999970000000]\<rparr>"

section \<open>Strings: basic facts\<close>

lemma length_strip_le: "length (strip s) \<le> length s"
proof -
  have "length (strip s) = length (dropWhile is_space (rev (dropWhile is_space s)))"
    by (simp add: strip_def)
  also have "\<dots> \<le> length (rev (dropWhile is_space s))"
    by (rule length_dropWhile_le)
  also have "\<dots> \<le> length s"
    by (simp add: length_dropWhile_le)
  finally show ?thesis .
qed

lemma request_text_le_field:
  "length (request_complaint_text req) \<le> length (request_complaint_field req)"
  by (auto simp: request_complaint_text_def request_complaint_field_def length_strip_le
      split: request.splits option.splits)

section \<open>Short complaints are rejected\<close>

text \<open>
  Claim C6. A submission whose complaint text has fewer than 10 characters, as it arrives
  or after the surrounding white space is stripped, is answered with status 400 (the
  validation error) and the message about the minimal length, and the store is returned
  as it was: no complaint is inserted and no activity entry is appended.
\<close>

theorem C6_short_text_rejected:
  assumes "length (request_complaint_field req) < 10 \<or> length (request_complaint_text req) < 10"
  shows "submit_complaint ml req complaint_id now now_log d =
           (Failure 400 ''Complaint must be at least 10 characters'', d)"
proof -
  have "length (request_complaint_text req) < 10"
    using assms request_text_le_field [of req] by linarith
  then show ?thesis by (simp add: submit_complaint_def)
qed

theorem C6_short_text_rejected_witness:
  "length (request_complaint_field (FormRequest [''complaint'' \<mapsto> ''too short''])) < 10 \<and>
   submit_complaint no_ml (FormRequest [''complaint'' \<mapsto> ''too short'']) ''c0ffee00-2'' 0 0
       sample_db =
     (Failure 400 ''Complaint must be at least 10 characters'', sample_db)"
proof -
  have h: "length (request_complaint_field (FormRequest [''complaint'' \<mapsto> ''too short''])) < 10"
    by (simp add: request_complaint_field_def get_or_def)
  from h C6_short_text_rejected [OF disjI1 [OF h]] show ?thesis by (rule conjI)
qed

section \<open>Voting: properties\<close>

lemma doc_neq_by_votes: "votes c' \<noteq> votes c \<Longrightarrow> (c' = c) = False"
  by auto

lemma vote_complaint_recorded:
  assumes c: "complaints_collection d cid = Some c" and cid: "cid \<noteq> []"
    and id: "data ''complaintId'' = Some cid"
    and fresh: "case data ''userEmail'' of None \<Rightarrow> True | Some e \<Rightarrow> e = [] \<or> e \<notin> set (voters c)"
  shows "vote_complaint (Some data) d =
           (let vote_change = (if get_or data ''voteType'' ''upvote'' = ''upvote'' then 1 else - 1);
                updated = c\<lparr>votes := votes c + vote_change,
                            priority_score := priority_score c + of_int vote_change * (1 / 2),
                            voters := (case data ''userEmail'' of
                                         None \<Rightarrow> voters c
                                       | Some e \<Rightarrow> if e \<noteq> [] then add_to_set (voters c) e else voters c)\<rparr>
            in (Success (''Vote '' @ (if vote_change = 1 then ''added'' else ''removed''),
                  votes c + vote_change, priority_score c + of_int vote_change * (1 / 2)),
                d\<lparr>complaints_collection := (complaints_collection d)(cid \<mapsto> updated)\<rparr>))"
  using c cid id fresh
  by (cases "data ''userEmail''") (simp_all add: vote_complaint_def Let_def doc_neq_by_votes)

text \<open>
  Claim C3. On an existing complaint, a vote request that carries a non-empty voter
  identity already present in the document's \<open>voters\<close> is answered with status 400 and
  the message "You have already voted on this complaint" (the conflict of the
  specification), and the store is returned as it was: \<open>votes\<close>, \<open>priority_score\<close> and
  \<open>voters\<close> of the document are unchanged. The complaint id of a stored document is a
  non-empty string (an empty id is refused before the document is looked up).
\<close>

theorem C3_second_vote_conflict:
  assumes "complaints_collection d cid = Some c" and "cid \<noteq> []"
    and "data ''complaintId'' = Some cid"
    and "data ''userEmail'' = Some e" and "e \<noteq> []" and "e \<in> set (voters c)"
  shows "vote_complaint (Some data) d =
           (Failure 400 ''You have already voted on this complaint'', d)"
  using assms by (simp add: vote_complaint_def)

text \<open>The same for two calls in a row: when the first vote with a new identity has been
  recorded, the second call with that identity is refused and changes nothing.\<close>

lemma vote_twice_same_identity:
  assumes c: "complaints_collection d cid = Some c" and cid: "cid \<noteq> []"
    and id: "data ''complaintId'' = Some cid"
    and em: "data ''userEmail'' = Some e" and e: "e \<noteq> []" and new: "e \<notin> set (voters c)"
  shows "\<exists>p d'. vote_complaint (Some data) d = (Success p, d') \<and>
           vote_complaint (Some data) d' =
             (Failure 400 ''You have already voted on this complaint'', d')"
proof -
  define k :: int where "k = (if get_or data ''voteType'' ''upvote'' = ''upvote'' then 1 else - 1)"
  define c' where "c' = c\<lparr>votes := votes c + k,
      priority_score := priority_score c + of_int k * (1 / 2), voters := add_to_set (voters c) e\<rparr>"
  define d' where "d' = d\<lparr>complaints_collection := (complaints_collection d)(cid \<mapsto> c')\<rparr>"
  have fresh: "case data ''userEmail'' of None \<Rightarrow> True | Some e \<Rightarrow> e = [] \<or> e \<notin> set (voters c)"
    using em new by simp
  have first: "vote_complaint (Some data) d =
      (Success (''Vote '' @ (if k = 1 then ''added'' else ''removed''), votes c + k,
         priority_score c + of_int k * (1 / 2)), d')"
    using vote_complaint_recorded [OF c cid id fresh] em e
    by (simp add: Let_def k_def c'_def d'_def)
  have stored: "complaints_collection d' cid = Some c'"
    by (simp add: d'_def)
  have "e \<in> set (voters c')"
    by (simp add: c'_def add_to_set_def)
  with stored cid id em e
  have "vote_complaint (Some data) d' =
      (Failure 400 ''You have already voted on this complaint'', d')"
    by (simp add: vote_complaint_def)
  with first show ?thesis by blast
qed

theorem C3_second_vote_conflict_witness:
  "complaints_collection sample_db ''c0ffee00-1'' = Some sample_doc \<and>
   ''c0ffee00-1'' \<noteq> [] \<and>
   [''complaintId'' \<mapsto> ''c0ffee00-1'', ''userEmail'' \<mapsto> ''ann@example.org''] ''complaintId''
     = Some ''c0ffee00-1'' \<and>
   [''complaintId'' \<mapsto> ''c0ffee00-1'', ''userEmail'' \<mapsto> ''ann@example.org''] ''userEmail''
     = Some ''ann@example.org'' \<and>
   ''ann@example.org'' \<noteq> [] \<and>
   ''ann@example.org'' \<in> set (voters sample_doc) \<and>
   vote_complaint
     (Some [''complaintId'' \<mapsto> ''c0ffee00-1'', ''userEmail'' \<mapsto> ''ann@example.org''])
     sample_db =
   (Failure 400 ''You have already voted on this complaint'', sample_db)"
proof -
  have h1: "complaints_collection sample_db ''c0ffee00-1'' = Some sample_doc"
    by (simp add: sample_db_def)
  have h2: "''c0ffee00-1'' \<noteq> []" by simp
  have h3: "[''complaintId'' \<mapsto> ''c0ffee00-1'', ''userEmail'' \<mapsto> ''ann@example.org'']
              ''complaintId'' = Some ''c0ffee00-1''" by simp
  have h4: "[''complaintId'' \<mapsto> ''c0ffee00-1'', ''userEmail'' \<mapsto> ''ann@example.org'']
              ''userEmail'' = Some ''ann@example.org''" by simp
  have h5: "''ann@example.org'' \<noteq> []" by simp
  have h6: "''ann@example.org'' \<in> set (voters sample_doc)" by (simp add: sample_doc_def)
  show ?thesis
    using h1 h2 h3 h4 h5 h6 C3_second_vote_conflict [OF h1 h2 h3 h4 h5 h6] by blast
qed







section \<open>Updating the status: properties\<close>

text \<open>
  Claim C8. Whatever the complaint id, a request whose \<open>status\<close> is not one of
  \<open>new\<close>, \<open>in_progress\<close>, \<open>resolved\<close> (or is absent) is answered with status 400, the
  validation error, and the store is returned as it was, so the status of every document
  is unchanged. For an existing document and one of the three values, the status is set,
  nothing else of the document changes, and exactly one activity entry is appended, of
  type \<open>status_update\<close>, whose message ends in the label New, In Progress or Resolved.
\<close>

theorem C8_update_status:
  "((\<forall>st. data ''status'' = Some st \<longrightarrow> st \<notin> {''new'', ''in_progress'', ''resolved''}) \<longrightarrow>
      (\<exists>msg. update_status (Some data) now d = (Failure 400 msg, d))) \<and>
   (complaints_collection d cid = Some c \<and> cid \<noteq> [] \<and> data ''complaintId'' = Some cid \<and>
    data ''status'' = Some st \<and> st \<in> {''new'', ''in_progress'', ''resolved''} \<longrightarrow>
      update_status (Some data) now d =
        (Success (),
         d\<lparr>complaints_collection := (complaints_collection d)(cid \<mapsto> c\<lparr>status := st\<rparr>),
           activity_collection := activity_collection d @
             [\<lparr>activity_type = ''status_update'',
               message = ''Complaint #'' @ take 8 cid @ '' marked as '' @
                 (if st = ''new'' then ''New''
                  else if st = ''in_progress'' then ''In Progress'' else ''Resolved''),
               activity_timestamp = bson_datetime now\<rparr>]\<rparr>))"
proof (intro conjI impI)
  assume bad: "\<forall>st. data ''status'' = Some st \<longrightarrow> st \<notin> {''new'', ''in_progress'', ''resolved''}"
  show "\<exists>msg. update_status (Some data) now d = (Failure 400 msg, d)"
  proof (cases "data ''status''")
    case None
    then show ?thesis by (simp add: update_status_def truthy_def)
  next
    case (Some st)
    with bad have "st \<notin> {''new'', ''in_progress'', ''resolved''}" by simp
    with Some show ?thesis
      by (cases "data ''complaintId''") (simp_all add: update_status_def truthy_def)
  qed
next
  assume a: "complaints_collection d cid = Some c \<and> cid \<noteq> [] \<and> data ''complaintId'' = Some cid \<and>
    data ''status'' = Some st \<and> st \<in> {''new'', ''in_progress'', ''resolved''}"
  then have "st \<noteq> []" by auto
  with a show "update_status (Some data) now d =
        (Success (),
         d\<lparr>complaints_collection := (complaints_collection d)(cid \<mapsto> c\<lparr>status := st\<rparr>),
           activity_collection := activity_collection d @
             [\<lparr>activity_type = ''status_update'',
               message = ''Complaint #'' @ take 8 cid @ '' marked as '' @
                 (if st = ''new'' then ''New''
                  else if st = ''in_progress'' then ''In Progress'' else ''Resolved''),
               activity_timestamp = bson_datetime now\<rparr>]\<rparr>)"
    by (auto simp: update_status_def truthy_def log_activity_def)
qed

theorem C8_update_status_witness:
  "update_status (Some [''complaintId'' \<mapsto> ''c0ffee00-1'', ''status'' \<mapsto> ''closed'']) 1234567
       sample_db
     = (Failure 400 ''Invalid status value'', sample_db) \<and>
   map_option status (complaints_collection sample_db ''c0ffee00-1'') = Some ''new'' \<and>
   update_status (Some [''complaintId'' \<mapsto> ''c0ffee00-1'', ''status'' \<mapsto> ''resolved'']) 1234567
       sample_db
     = (Success (),
        \<lparr>complaints_collection = [''c0ffee00-1'' \<mapsto> sample_doc\<lparr>status := ''resolved''\<rparr>],
         activity_collection =
           [\<lparr>activity_type = ''status_update'',
             message = ''Complaint #c0ffee00 marked as Resolved'',
             activity_timestamp = 1234000\<rparr>]\<rparr>)"
proof -
  have h1: "complaints_collection sample_db ''c0ffee00-1'' = Some sample_doc"
    by (simp add: sample_db_def)
  note bad = C8_update_status [of "[''complaintId'' \<mapsto> ''c0ffee00-1'', ''status'' \<mapsto> ''closed'']"
      1234567 sample_db "''c0ffee00-1''" sample_doc "''closed''", THEN conjunct1]
  note good = C8_update_status [of "[''complaintId'' \<mapsto> ''c0ffee00-1'', ''status'' \<mapsto> ''resolved'']"
      1234567 sample_db "''c0ffee00-1''" sample_doc "''resolved''", THEN conjunct2]
  have a: "update_status (Some [''complaintId'' \<mapsto> ''c0ffee00-1'', ''status'' \<mapsto> ''closed''])
      1234567 sample_db = (Failure 400 ''Invalid status value'', sample_db)"
    using bad by (simp add: update_status_def truthy_def)
  have b: "map_option status (complaints_collection sample_db ''c0ffee00-1'') = Some ''new''"
    by (simp add: sample_db_def sample_doc_def)
  have c: "update_status (Some [''complaintId'' \<mapsto> ''c0ffee00-1'', ''status'' \<mapsto> ''resolved''])
      1234567 sample_db
     = (Success (),
        \<lparr>complaints_collection = [''c0ffee00-1'' \<mapsto> sample_doc\<lparr>status := ''resolved''\<rparr>],
         activity_collection =
           [\<lparr>activity_type = ''status_update'',
             message = ''Complaint #c0ffee00 marked as Resolved'',
             activity_timestamp = 1234000\<rparr>]\<rparr>)"
    using good h1 by (simp add: sample_db_def bson_datetime_def)
  from a b c show ?thesis by blast
qed

section \<open>Submitting a complaint: properties\<close>

lemma submit_complaint_stored:
  assumes len: "10 \<le> length (request_complaint_text req)"
    and new: "complaints_collection d complaint_id = None"
  shows "submit_complaint ml req complaint_id now now_log d =
           (Success (complaint_id, category (complaint_entry ml req complaint_id now)),
            d\<lparr>complaints_collection :=
                 (complaints_collection d)(complaint_id \<mapsto> complaint_entry ml req complaint_id now),
              activity_collection := activity_collection d @
                [\<lparr>activity_type = ''new_complaint'',
                  message = ''New complaint submitted in '' @
                    category (complaint_entry ml req complaint_id now) @ '' category'',
                  activity_timestamp = bson_datetime now_log\<rparr>]\<rparr>)"
  using len new by (simp add: submit_complaint_def Let_def log_activity_def)


lemma complaint_entry_fields:
  "severity (complaint_entry ml req complaint_id now) = parse_severity (request_form req)"
  "complaint (complaint_entry ml req complaint_id now) = request_complaint_text req"
  "priority_score (complaint_entry ml req complaint_id now) =
     of_int (initial_priority_score (parse_severity (request_form req)) (request_complaint_text req))"
  "category (complaint_entry ml req complaint_id now) = snd (resolve_category ml (request_complaint_text req))"
  "prediction_source (complaint_entry ml req complaint_id now) =
     (if truthy (fst (resolve_category ml (request_complaint_text req))) then ''manual'' else ''model'')"
  "status (complaint_entry ml req complaint_id now) = ''new''"
  "votes (complaint_entry ml req complaint_id now) = 0"
  by (simp_all add: complaint_entry_def Let_def split: prod.splits)





section \<open>The stored severity\<close>




section \<open>No keyword match and no classifier\<close>

text \<open>
  Claim C1. Without a keyword match and without the classifier the category is Other.
  The claim has its provenance recorded as manual; the document's
  \<open>prediction_source\<close> is "model" there, since it is "manual" only for a keyword match.
  The handler run on the text "hello there friend", with none of the three artefacts
  loaded:
\<close>

theorem C1_default_recorded_as_model:
  "map_option category
     (complaints_collection
        (snd (submit_complaint no_ml
                (JsonRequest (Some [''complaint'' \<mapsto> ''hello there friend'']))
                ''c0ffee00-2'' 0 0 sample_db)) ''c0ffee00-2'') = Some ''Other'' \<and>
   map_option prediction_source
     (complaints_collection
        (snd (submit_complaint no_ml
                (JsonRequest (Some [''complaint'' \<mapsto> ''hello there friend'']))
                ''c0ffee00-2'' 0 0 sample_db)) ''c0ffee00-2'') = Some ''model''"
proof -
  let ?req = "JsonRequest (Some [''complaint'' \<mapsto> ''hello there friend''])"
  have body: "request_complaint_text ?req = ''hello there friend''"
    by (simp add: request_complaint_text_def get_or_def strip_def is_space_def)
  have cat: "resolve_category no_ml ''hello there friend'' = (None, ''Other'')"
    by code_simp
  have len: "10 \<le> length (request_complaint_text ?req)"
    by (simp add: body)
  have new: "complaints_collection sample_db ''c0ffee00-2'' = None"
    by (simp add: sample_db_def)
  show ?thesis
    by (simp add: submit_complaint_stored [OF len new] complaint_entry_fields body cat truthy_def)
qed

text \<open>In general: without a keyword match and with one of the artefacts missing, the
  keyword result is \<open>None\<close> and the category is Other.\<close>

lemma no_match_no_model:
  assumes "manual_category_detection (lower complaint_text) = None"
    and "model ml = None \<or> tfidf_vectorizer ml = None \<or> label_encoder ml = None"
  shows "resolve_category ml complaint_text = (None, ''Other'')"
  using assms
  by (auto simp: resolve_category_def truthy_def CATEGORIES_def split: option.splits)

section \<open>Keyword precedence\<close>

text \<open>\<open>str_in\<close> is the substring test, and lower-casing twice is lower-casing once.\<close>

lemma starts_with_iff: "starts_with sub s \<longleftrightarrow> (\<exists>q. s = sub @ q)"
  by (induction sub s rule: starts_with.induct) auto

lemma str_in_iff: "str_in sub s \<longleftrightarrow> (\<exists>p q. s = p @ sub @ q)"
proof (induction s)
  case Nil
  then show ?case by auto
next
  case (Cons c cs)
  show ?case
  proof
    assume "str_in sub (c # cs)"
    then consider "starts_with sub (c # cs)" | "str_in sub cs" by auto
    then show "\<exists>p q. c # cs = p @ sub @ q"
    proof cases
      case 1
      then obtain q where "c # cs = sub @ q" by (auto simp: starts_with_iff)
      then have "c # cs = [] @ sub @ q" by simp
      then show ?thesis by blast
    next
      case 2
      with Cons.IH obtain p q where "cs = p @ sub @ q" by blast
      then have "c # cs = (c # p) @ sub @ q" by simp
      then show ?thesis by blast
    qed
  next
    assume "\<exists>p q. c # cs = p @ sub @ q"
    then obtain p q where pq: "c # cs = p @ sub @ q" by blast
    show "str_in sub (c # cs)"
    proof (cases p)
      case Nil
      with pq have "starts_with sub (c # cs)" by (auto simp: starts_with_iff)
      then show ?thesis by simp
    next
      case (Cons a p')
      with pq have "cs = p' @ sub @ q" by simp
      with Cons.IH have "str_in sub cs" by blast
      then show ?thesis by simp
    qed
  qed
qed

lemma lower_char_idem: "lower_char (lower_char c) = lower_char c"
proof -
  have range: "0 \<le> (of_char c :: int)" "(of_char c :: int) < 256"
    using pos_mod_sign [of 256 "of_char c :: int"] pos_mod_bound [of 256 "of_char c :: int"]
    by simp_all
  show ?thesis
    using range by (auto simp: lower_char_def Let_def)
qed

lemma lower_idem: "lower (lower s) = lower s"
  by (simp add: lower_def lower_char_idem)

text \<open>The loop returns the first category of the table that has a keyword in the text.\<close>

lemma first_keyword_match_first:
  assumes "\<forall>(c', ks') \<in> set earlier. \<not> list_ex (\<lambda>k. str_in (lower k) t) ks'"
    and "list_ex (\<lambda>k. str_in (lower k) t) ks"
  shows "first_keyword_match (earlier @ (C, ks) # later) t = Some C"
  using assms by (induction earlier) auto

lemma keyword_categories: "fst ` set CATEGORY_KEYWORDS = set CATEGORIES"
  by (simp add: CATEGORY_KEYWORDS_def CATEGORIES_def)

lemma categories_nonempty: "[] \<notin> set CATEGORIES"
  by (simp add: CATEGORIES_def)

text \<open>
  Claim C4. Let the lower-cased text contain a keyword of category \<open>C\<close> and no
  keyword of a category that stands before \<open>C\<close> in the keyword table, whose order is
  Water Issues, Road Issues, Garbage Issues, Electricity, Drainage Issues, Other. Then the
  keyword detection returns \<open>C\<close>, the resolved category is \<open>C\<close>, and a complaint
  with this text is stored with category \<open>C\<close> and \<open>prediction_source\<close> "manual".
  This holds for every state \<open>ml\<close> of the classifier, loaded or not: its answer does
  not enter the result.
\<close>

theorem C4_keyword_precedence:
  assumes tbl: "CATEGORY_KEYWORDS = earlier @ (C, keywords) # later"
    and kw: "keyword \<in> set keywords"
    and hit: "str_in (lower keyword) (lower complaint_text)"
    and miss: "\<forall>(c', ks') \<in> set earlier. \<forall>k \<in> set ks'. \<not> str_in (lower k) (lower complaint_text)"
  shows "manual_category_detection complaint_text = Some C \<and>
         resolve_category ml complaint_text = (Some C, C) \<and>
         (\<forall>req complaint_id now. request_complaint_text req = complaint_text \<longrightarrow>
            category (complaint_entry ml req complaint_id now) = C \<and>
            prediction_source (complaint_entry ml req complaint_id now) = ''manual'')"
proof -
  have "(C, keywords) \<in> set CATEGORY_KEYWORDS"
    by (simp add: tbl)
  then have "C \<in> fst ` set CATEGORY_KEYWORDS"
    by force
  then have C: "C \<in> set CATEGORIES"
    by (simp only: keyword_categories)
  with categories_nonempty have ne: "C \<noteq> []"
    by auto
  have none: "\<forall>(c', ks') \<in> set earlier. \<not> list_ex (\<lambda>k. str_in (lower k) (lower complaint_text)) ks'"
    using miss by (auto simp: list_ex_iff)
  have some: "list_ex (\<lambda>k. str_in (lower k) (lower complaint_text)) keywords"
    using kw hit by (auto simp: list_ex_iff)
  have det: "manual_category_detection complaint_text = Some C"
    unfolding manual_category_detection_def tbl
    by (rule first_keyword_match_first [OF none some])
  then have det': "manual_category_detection (lower complaint_text) = Some C"
    by (simp add: manual_category_detection_def lower_idem)
  have res: "resolve_category ml complaint_text = (Some C, C)"
    using C ne by (simp add: resolve_category_def det' truthy_def)
  then have "\<forall>req complaint_id now. request_complaint_text req = complaint_text \<longrightarrow>
            category (complaint_entry ml req complaint_id now) = C \<and>
            prediction_source (complaint_entry ml req complaint_id now) = ''manual''"
    using ne by (simp add: complaint_entry_fields truthy_def)
  with det res show ?thesis by blast
qed


theorem C4_keyword_precedence_witness:
  "manual_category_detection ''Big Pothole near my house'' = Some ''Road Issues'' \<and>
   resolve_category garbage_ml ''Big Pothole near my house'' = (Some ''Road Issues'', ''Road Issues'') \<and>
   category (complaint_entry garbage_ml
       (JsonRequest (Some [''complaint'' \<mapsto> ''Big Pothole near my house''])) ''c0ffee00-2'' 0)
     = ''Road Issues'' \<and>
   prediction_source (complaint_entry garbage_ml
       (JsonRequest (Some [''complaint'' \<mapsto> ''Big Pothole near my house''])) ''c0ffee00-2'' 0)
     = ''manual''"
proof -
  let ?req = "JsonRequest (Some [''complaint'' \<mapsto> ''Big Pothole near my house''])"
  have tbl: "CATEGORY_KEYWORDS =
      [(''Water Issues'',
        [''water'', ''drinking'', ''supply'', ''leak'', ''pipe'', ''tap'', ''smell'',
         ''taste'', ''pressure''])] @
      (''Road Issues'',
        [''road'', ''pothole'', ''asphalt'', ''street'', ''highway'', ''repair'',
         ''damage'', ''construction'']) #
      [(''Garbage Issues'',
        [''garbage'', ''trash'', ''waste'', ''collection'', ''dump'', ''bin'', ''clean'',
         ''disposal'']),
       (''Electricity'',
        [''electricity'', ''power'', ''outage'', ''blackout'', ''wire'', ''transformer'',
         ''voltage'', ''flickering'']),
       (''Drainage Issues'',
        [''drainage'', ''sewer'', ''flood'', ''waterlogging'', ''blockage'', ''clog'',
         ''overflow'']),
       (''Other'',
        [''noise'', ''loudspeaker'', ''park'', ''tree'', ''animal'', ''stray'', ''public'',
         ''nuisance''])]"
    by (simp add: CATEGORY_KEYWORDS_def)
  have kw: "''pothole'' \<in> set [''road'', ''pothole'', ''asphalt'', ''street'', ''highway'',
      ''repair'', ''damage'', ''construction'']"
    by simp
  have low: "lower ''Big Pothole near my house'' = ''big pothole near my house''"
    by (simp add: lower_def lower_char_def char_of_def)
  have hit: "str_in (lower ''pothole'') (lower ''Big Pothole near my house'')"
    unfolding low by (simp add: lower_def lower_char_def char_of_def)
  have miss: "\<forall>(c', ks') \<in> set [(''Water Issues'',
        [''water'', ''drinking'', ''supply'', ''leak'', ''pipe'', ''tap'', ''smell'',
         ''taste'', ''pressure''])].
      \<forall>k \<in> set ks'. \<not> str_in (lower k) (lower ''Big Pothole near my house'')"
    unfolding low by (simp add: lower_def lower_char_def char_of_def)
  have body: "request_complaint_text ?req = ''Big Pothole near my house''"
    by (simp add: request_complaint_text_def get_or_def strip_def is_space_def)
  note C4_keyword_precedence [OF tbl kw hit miss, of garbage_ml]
  with body show ?thesis by blast
qed

section \<open>Reading the recent activity: properties\<close>

lemma stored_fields_annotate: "stored_fields (annotate now a) = a"
  by (simp add: stored_fields_def annotate_def)

text \<open>The entries read: at most ten, by descending timestamp, and none of the entries
  left out is more recent than one that is returned.\<close>

lemma sorted_desc_sort_key:
  "sorted_wrt (\<lambda>a b. activity_timestamp b \<le> activity_timestamp a)
     (sort_key (\<lambda>a. - activity_timestamp a) entries)"
proof -
  have "sorted (map (\<lambda>a. - activity_timestamp a) (sort_key (\<lambda>a. - activity_timestamp a) entries))"
    by (rule sorted_sort_key)
  then show ?thesis by (simp add: sorted_map)
qed

lemma recent_activities_length:
  "length (recent_activities entries) = min 10 (length entries)"
  by (simp add: recent_activities_def min_def)

lemma recent_activities_sorted:
  "sorted_wrt (\<lambda>a b. activity_timestamp b \<le> activity_timestamp a) (recent_activities entries)"
  unfolding recent_activities_def by (rule sorted_wrt_take [OF sorted_desc_sort_key])

lemma recent_activities_most_recent:
  "\<exists>rest. mset (recent_activities entries) + mset rest = mset entries \<and>
     (\<forall>a \<in> set rest. \<forall>b \<in> set (recent_activities entries).
        activity_timestamp a \<le> activity_timestamp b)"
proof -
  let ?s = "sort_key (\<lambda>a. - activity_timestamp a) entries"
  have "mset (take 10 ?s) + mset (drop 10 ?s) = mset ?s"
    by (simp flip: mset_append)
  then have m: "mset (recent_activities entries) + mset (drop 10 ?s) = mset entries"
    by (simp add: recent_activities_def)
  have "sorted_wrt (\<lambda>a b. activity_timestamp b \<le> activity_timestamp a) (take 10 ?s @ drop 10 ?s)"
    using sorted_desc_sort_key [of entries] by simp
  then have "\<forall>b \<in> set (take 10 ?s). \<forall>a \<in> set (drop 10 ?s).
      activity_timestamp a \<le> activity_timestamp b"
    unfolding sorted_wrt_append by blast
  then have "\<forall>a \<in> set (drop 10 ?s). \<forall>b \<in> set (recent_activities entries).
      activity_timestamp a \<le> activity_timestamp b"
    by (auto simp: recent_activities_def)
  with m show ?thesis by blast
qed

text \<open>The label by the age of the entry. In the bucket of the minutes the count is
  between 1 and 59, in that of the hours between 1 and 23, in that of the days at least
  1; the unit is in the singular exactly for the count 1.\<close>

lemma time_ago_just_now: "diff < 60 * 1000000 \<Longrightarrow> time_ago_of diff = ''just now''"
  by (simp add: time_ago_of_def)

lemma time_ago_minutes:
  assumes "60 * 1000000 \<le> diff" and "diff < 3600 * 1000000"
  shows "\<exists>m. m = nat (diff div (60 * 1000000)) \<and> 1 \<le> m \<and> m \<le> 59 \<and>
           time_ago_of diff = str_nat m @ (if m = 1 then '' minute ago'' else '' minutes ago'')"
proof -
  define m where "m = nat (diff div (60 * 1000000))"
  from assms have "1 \<le> diff div (60 * 1000000)" "diff div (60 * 1000000) \<le> 59"
    by simp_all
  then have "1 \<le> m" "m \<le> 59" by (simp_all add: m_def)
  moreover from assms \<open>1 \<le> m\<close>
  have "time_ago_of diff = str_nat m @ (if m = 1 then '' minute ago'' else '' minutes ago'')"
    by (auto simp: time_ago_of_def Let_def m_def)
  ultimately show ?thesis using m_def by blast
qed

lemma time_ago_hours:
  assumes "3600 * 1000000 \<le> diff" and "diff < 86400 * 1000000"
  shows "\<exists>h. h = nat (diff div (3600 * 1000000)) \<and> 1 \<le> h \<and> h \<le> 23 \<and>
           time_ago_of diff = str_nat h @ (if h = 1 then '' hour ago'' else '' hours ago'')"
proof -
  define h where "h = nat (diff div (3600 * 1000000))"
  from assms have "1 \<le> diff div (3600 * 1000000)" "diff div (3600 * 1000000) \<le> 23"
    by simp_all
  then have "1 \<le> h" "h \<le> 23" by (simp_all add: h_def)
  moreover from assms \<open>1 \<le> h\<close>
  have "time_ago_of diff = str_nat h @ (if h = 1 then '' hour ago'' else '' hours ago'')"
    by (auto simp: time_ago_of_def Let_def h_def)
  ultimately show ?thesis using h_def by blast
qed

lemma time_ago_days:
  assumes "86400 * 1000000 \<le> diff"
  shows "\<exists>n. n = nat (diff div (86400 * 1000000)) \<and> 1 \<le> n \<and>
           time_ago_of diff = str_nat n @ (if n = 1 then '' day ago'' else '' days ago'')"
proof -
  define n where "n = nat (diff div (86400 * 1000000))"
  from assms have "1 \<le> diff div (86400 * 1000000)"
    by simp
  then have "1 \<le> n" by (simp add: n_def)
  moreover from assms \<open>1 \<le> n\<close>
  have "time_ago_of diff = str_nat n @ (if n = 1 then '' day ago'' else '' days ago'')"
    by (auto simp: time_ago_of_def Let_def n_def)
  ultimately show ?thesis using n_def by blast
qed


lemma stored_fields_timestamp [simp]:
  "activity_timestamp (stored_fields v) = activity_timestamp v"
  by (simp add: stored_fields_def)

lemma annotate_all_stored:
  "map stored_fields (map (\<lambda>(i, a). annotate (clock i) a) (enumerate n xs)) = xs"
proof -
  have "stored_fields \<circ> (\<lambda>(i, a). annotate (clock i) a) = snd"
    by (auto simp: stored_fields_annotate)
  then show ?thesis by (simp add: map_snd_enumerate)
qed

lemma annotate_nth:
  assumes "i < length xs"
  shows "map (\<lambda>(i, a). annotate (clock i) a) (enumerate 0 xs) ! i = annotate (clock i) (xs ! i)"
  using assms by (simp add: nth_enumerate_eq)

text \<open>
  Claim C9. For every store and every clock, the read of the recent activity succeeds
  and leaves the store as it was, so no label is ever written to an entry (a stored entry
  has no field for it). It returns \<open>min 10 n\<close> of the \<open>n\<close> entries, by descending
  timestamp; the entries left out are no more recent than those returned. Each returned
  entry carries its stored fields and the label for the clock reading of its iteration
  minus its timestamp: "just now" under 60 seconds (in microseconds here), the count of
  minutes under one hour, of hours under 24 hours, of days otherwise, with "minute",
  "hour", "day" in the singular for the count 1 and in the plural above.
\<close>

theorem C9_recent_activity:
  "\<exists>views. get_recent_activity clock d = (Success views, d) \<and>
     map stored_fields views = recent_activities (activity_collection d) \<and>
     length views = min 10 (length (activity_collection d)) \<and>
     sorted_wrt (\<lambda>a b. activity_timestamp b \<le> activity_timestamp a) views \<and>
     (\<exists>rest. mset (map stored_fields views) + mset rest = mset (activity_collection d) \<and>
        (\<forall>a \<in> set rest. \<forall>b \<in> set views. activity_timestamp a \<le> activity_timestamp b)) \<and>
     (\<forall>i < length views.
        time_ago (views ! i) = time_ago_of (clock i - activity_timestamp (views ! i))) \<and>
     (\<forall>diff.
        (diff < 60 * 1000000 \<longrightarrow> time_ago_of diff = ''just now'') \<and>
        (60 * 1000000 \<le> diff \<and> diff < 3600 * 1000000 \<longrightarrow>
           (\<exists>m. m = nat (diff div (60 * 1000000)) \<and> 1 \<le> m \<and> m \<le> 59 \<and>
              time_ago_of diff = str_nat m @ (if m = 1 then '' minute ago'' else '' minutes ago''))) \<and>
        (3600 * 1000000 \<le> diff \<and> diff < 86400 * 1000000 \<longrightarrow>
           (\<exists>h. h = nat (diff div (3600 * 1000000)) \<and> 1 \<le> h \<and> h \<le> 23 \<and>
              time_ago_of diff = str_nat h @ (if h = 1 then '' hour ago'' else '' hours ago''))) \<and>
        (86400 * 1000000 \<le> diff \<longrightarrow>
           (\<exists>n. n = nat (diff div (86400 * 1000000)) \<and> 1 \<le> n \<and>
              time_ago_of diff = str_nat n @ (if n = 1 then '' day ago'' else '' days ago''))))"
proof -
  let ?R = "recent_activities (activity_collection d)"
  define views where "views = map (\<lambda>(i, a). annotate (clock i) a) (enumerate 0 ?R)"
  have run: "get_recent_activity clock d = (Success views, d)"
    by (simp add: get_recent_activity_def views_def)
  have stored: "map stored_fields views = ?R"
    unfolding views_def by (rule annotate_all_stored)
  have len: "length views = min 10 (length (activity_collection d))"
    by (simp add: views_def recent_activities_length)
  have "sorted_wrt (\<lambda>a b. activity_timestamp b \<le> activity_timestamp a) (map stored_fields views)"
    unfolding stored by (rule recent_activities_sorted)
  then have sorted: "sorted_wrt (\<lambda>a b. activity_timestamp b \<le> activity_timestamp a) views"
    by (simp add: sorted_wrt_map)
  from recent_activities_most_recent [of "activity_collection d"]
  obtain rest where rest: "mset ?R + mset rest = mset (activity_collection d)"
    and older: "\<forall>a \<in> set rest. \<forall>b \<in> set ?R. activity_timestamp a \<le> activity_timestamp b"
    by blast
  have "\<forall>a \<in> set rest. \<forall>b \<in> set views. activity_timestamp a \<le> activity_timestamp b"
  proof (intro ballI)
    fix a b
    assume a: "a \<in> set rest" and b: "b \<in> set views"
    from b have "stored_fields b \<in> set (map stored_fields views)" by simp
    then have "stored_fields b \<in> set ?R" by (simp only: stored)
    with older a have "activity_timestamp a \<le> activity_timestamp (stored_fields b)" by blast
    then show "activity_timestamp a \<le> activity_timestamp b" by simp
  qed
  with rest stored
  have most: "\<exists>rest. mset (map stored_fields views) + mset rest = mset (activity_collection d) \<and>
        (\<forall>a \<in> set rest. \<forall>b \<in> set views. activity_timestamp a \<le> activity_timestamp b)"
    by auto
  have labels: "\<forall>i < length views.
        time_ago (views ! i) = time_ago_of (clock i - activity_timestamp (views ! i))"
  proof (intro allI impI)
    fix i
    assume "i < length views"
    then have i: "i < length ?R" by (simp add: views_def)
    have "views ! i = annotate (clock i) (?R ! i)"
      unfolding views_def by (rule annotate_nth [OF i])
    then show "time_ago (views ! i) = time_ago_of (clock i - activity_timestamp (views ! i))"
      by (simp add: annotate_def)
  qed
  have buckets: "\<forall>diff.
        (diff < 60 * 1000000 \<longrightarrow> time_ago_of diff = ''just now'') \<and>
        (60 * 1000000 \<le> diff \<and> diff < 3600 * 1000000 \<longrightarrow>
           (\<exists>m. m = nat (diff div (60 * 1000000)) \<and> 1 \<le> m \<and> m \<le> 59 \<and>
              time_ago_of diff = str_nat m @ (if m = 1 then '' minute ago'' else '' minutes ago''))) \<and>
        (3600 * 1000000 \<le> diff \<and> diff < 86400 * 1000000 \<longrightarrow>
           (\<exists>h. h = nat (diff div (3600 * 1000000)) \<and> 1 \<le> h \<and> h \<le> 23 \<and>
              time_ago_of diff = str_nat h @ (if h = 1 then '' hour ago'' else '' hours ago''))) \<and>
        (86400 * 1000000 \<le> diff \<longrightarrow>
           (\<exists>n. n = nat (diff div (86400 * 1000000)) \<and> 1 \<le> n \<and>
              time_ago_of diff = str_nat n @ (if n = 1 then '' day ago'' else '' days ago'')))"
    using time_ago_just_now time_ago_minutes time_ago_hours time_ago_days by blast
  from run stored len sorted most labels buckets show ?thesis by blast
qed


theorem C9_recent_activity_witness:
  "(case get_recent_activity (\<lambda>i. 1000000000000) sample_activity_db of
      (Success views, d') \<Rightarrow>
        d' = sample_activity_db \<and>
        map time_ago views =
          [''just now'', ''1 minute ago'', ''1 minute ago'', ''2 hours ago'', ''3 days ago'',
           ''4 days ago'', ''5 days ago'', ''6 days ago'', ''7 days ago'', ''8 days ago'']
    | (Failure code msg, d') \<Rightarrow> False)"
proof -
  from C9_recent_activity [of "\<lambda>i. 1000000000000" sample_activity_db]
  obtain views where run: "get_recent_activity (\<lambda>i. 1000000000000) sample_activity_db =
        (Success views, sample_activity_db)"
    and stored: "map stored_fields views = recent_activities (activity_collection sample_activity_db)"
    and labels: "\<forall>i < length views.
        time_ago (views ! i) = time_ago_of (1000000000000 - activity_timestamp (views ! i))"
    by blast
  have "map time_ago views =
      map (\<lambda>a. time_ago_of (1000000000000 - activity_timestamp a)) (map stored_fields views)"
    using labels by (intro nth_equalityI) simp_all
  also have "\<dots> = [''just now'', ''1 minute ago'', ''1 minute ago'', ''2 hours ago'', ''3 days ago'',
           ''4 days ago'', ''5 days ago'', ''6 days ago'', ''7 days ago'', ''8 days ago'']"
    unfolding stored by code_simp
  finally show ?thesis by (simp add: run)
qed

end
